theory Spec2Isabelle
  imports Complex_Main
begin

section \<open>Data model (extraction/models.py)\<close>

text \<open>
  A job id is a UUID, a 128-bit number. A timestamp is a \<open>datetime\<close>, counted here in
  microseconds (the resolution of \<open>datetime\<close>). Strings are lists of characters.
  The bookkeeping columns \<open>created_at\<close>, \<open>updated_at\<close> and \<open>result_data\<close> are
  read by no operation of the service and are left out of the rows.
\<close>

type_synonym job_id = nat
type_synonym timestamp = int

record extraction_job =
  job_id :: job_id
  status :: string
  api_token :: string
  error_message :: string
  record_count :: int
  start_time :: "timestamp option"
  end_time :: "timestamp option"

datatype json = JString string | JObject "(string \<times> json) list"

record extracted_record =
  job :: job_id
  id_from_service :: json
  email :: json
  first_name :: json
  last_name :: json
  additional_data :: json

definition STATUS_CHOICES :: "(string \<times> string) list" where
  "STATUS_CHOICES =
     [(''pending'', ''Pending''), (''in_progress'', ''In Progress''),
      (''completed'', ''Completed''), (''failed'', ''Failed''),
      (''cancelled'', ''Cancelled'')]"

text \<open>\<open>ExtractionJob.duration_seconds\<close>; \<open>now\<close> is the reading of \<open>timezone.now()\<close>.
  \<open>total_seconds()\<close> is a float; the model keeps the exact quotient.\<close>

definition total_seconds :: "int \<Rightarrow> real" where
  "total_seconds delta = real_of_int delta / 1000000"

definition duration_seconds :: "timestamp \<Rightarrow> extraction_job \<Rightarrow> real" where
  "duration_seconds now j =
     (if start_time j \<noteq> None \<and> end_time j \<noteq> None
      then total_seconds (the (end_time j) - the (start_time j))
      else if start_time j \<noteq> None then total_seconds (now - the (start_time j))
      else 0)"

definition can_be_cancelled :: "extraction_job \<Rightarrow> bool" where
  "can_be_cancelled j = (status j \<in> set [''pending'', ''in_progress''])"

section \<open>The store (the two tables behind the ORM)\<close>

record store =
  jobs :: "extraction_job list"
  records :: "extracted_record list"

definition empty_store :: store where
  "empty_store = \<lparr>jobs = [], records = []\<rparr>"

datatype exn =
    DoesNotExist
  | ValueError string
  | KeyError string
  | IntegrityError
  | UnboundLocalError string

text \<open>\<open>ExtractionJob.objects.get(job_id=...)\<close>: \<open>None\<close> stands for \<open>DoesNotExist\<close>.\<close>

definition get_job :: "store \<Rightarrow> job_id \<Rightarrow> extraction_job option" where
  "get_job s jid = find (\<lambda>j. job_id j = jid) (jobs s)"

text \<open>\<open>job.save()\<close>: an UPDATE of the row with the job's primary key, an INSERT when
  there is none.\<close>

definition save_job :: "extraction_job \<Rightarrow> store \<Rightarrow> store" where
  "save_job j s =
     (if get_job s (job_id j) = None then s\<lparr>jobs := jobs s @ [j]\<rparr>
      else s\<lparr>jobs := map (\<lambda>x. if job_id x = job_id j then j else x) (jobs s)\<rparr>)"

text \<open>\<open>unique_together = ['job', 'id_from_service']\<close> of \<open>ExtractedRecord.Meta\<close>.\<close>

definition unique_key :: "extracted_record \<Rightarrow> job_id \<times> json" where
  "unique_key r = (job r, id_from_service r)"

definition violates_unique_together :: "extracted_record list \<Rightarrow> store \<Rightarrow> bool" where
  "violates_unique_together rs s =
     (\<not> distinct (map unique_key rs) \<or>
      (\<exists>r \<in> set rs. unique_key r \<in> set (map unique_key (records s))))"

text \<open>\<open>ExtractedRecord.objects.bulk_create(records)\<close>: one atomic INSERT; a row that
  breaks the unique constraint raises \<open>IntegrityError\<close> and nothing is inserted.\<close>

definition bulk_create :: "extracted_record list \<Rightarrow> store \<Rightarrow> exn + store" where
  "bulk_create rs s =
     (if violates_unique_together rs s then Inl IntegrityError
      else Inr (s\<lparr>records := records s @ rs\<rparr>))"

definition records_of :: "store \<Rightarrow> job_id \<Rightarrow> extracted_record list" where
  "records_of s jid = filter (\<lambda>r. job r = jid) (records s)"

section \<open>MockThirdPartyAPI (extraction/services.py)\<close>

definition startswith :: "string \<Rightarrow> string \<Rightarrow> bool" where
  "startswith s p = (take (length p) s = p)"

text \<open>\<open>bool(tok and len(tok) > 10 and not tok.startswith('invalid'))\<close>, with the
  short-circuit order of \<open>and\<close>.\<close>

definition validate_token :: "string \<Rightarrow> bool" where
  "validate_token tok =
     (if tok = [] then False
      else if \<not> 10 < length tok then False
      else \<not> startswith tok ''invalid'')"

text \<open>\<open>str(i)\<close> and the format \<open>{i:04d}\<close> for a natural number.\<close>

definition digit_char :: "nat \<Rightarrow> char" where
  "digit_char d = char_of (48 + d)"

fun str_nat :: "nat \<Rightarrow> string" where
  "str_nat n = (if n < 10 then [digit_char n] else str_nat (n div 10) @ [digit_char (n mod 10)])"

declare str_nat.simps [simp del]

definition format_04d :: "nat \<Rightarrow> string" where
  "format_04d n = replicate (4 - length (str_nat n)) (CHR ''0'') @ str_nat n"

text \<open>\<open>random.randint(a, b)\<close>: some integer between \<open>a\<close> and \<open>b\<close> inclusive, chosen by
  the generator's state \<open>r\<close>.\<close>

definition randint :: "nat \<Rightarrow> nat \<Rightarrow> nat \<Rightarrow> nat" where
  "randint a b r = a + r mod (b - a + 1)"

definition mock_item :: "nat \<Rightarrow> (string \<times> json) list" where
  "mock_item i =
     [(''id_from_service'', JString (''user_'' @ str_nat i)),
      (''email'', JString (''user'' @ str_nat i @ ''@example.com'')),
      (''first_name'', JString (''FirstName'' @ str_nat i)),
      (''last_name'', JString (''LastName'' @ str_nat i)),
      (''additional_data'', JObject
         [(''phone'', JString (''+1-555-'' @ format_04d (1000 + i))),
          (''company'', JString (''Company '' @ str_nat i)),
          (''created_date'', JString ''2023-01-01'')])]"

text \<open>\<open>extract_data\<close>; the sleep changes nothing but the clock, which the caller
  reads again afterwards.\<close>

definition extract_data :: "string \<Rightarrow> nat \<Rightarrow> exn + (string \<times> json) list list" where
  "extract_data tok r =
     (if \<not> validate_token tok then Inl (ValueError ''Invalid API token'')
      else Inr (map mock_item [1..<randint 5 25 r]))"

section \<open>ExtractionService (extraction/services.py)\<close>

text \<open>What one run of \<open>_process_extraction\<close> reads from outside: the two readings of
  \<open>timezone.now()\<close>, the state of the random generator, and the text the database
  gives its \<open>IntegrityError\<close>.\<close>

record env =
  now_start :: timestamp
  now_end :: timestamp
  entropy :: nat
  db_text :: string

definition str_exn :: "env \<Rightarrow> exn \<Rightarrow> string" where
  "str_exn e x =
     (case x of
        ValueError m \<Rightarrow> m
      | KeyError k \<Rightarrow> [CHR 0x27] @ k @ [CHR 0x27]
      | IntegrityError \<Rightarrow> db_text e
      | DoesNotExist \<Rightarrow> ''ExtractionJob matching query does not exist.''
      | UnboundLocalError v \<Rightarrow> v)"

text \<open>\<open>start_extraction\<close>: \<open>new_id\<close> is the value \<open>uuid.uuid4\<close> draws; the primary key
  refuses an id already in the table.\<close>

definition start_extraction ::
    "job_id \<Rightarrow> string \<Rightarrow> store \<Rightarrow> exn + (extraction_job \<times> store)" where
  "start_extraction new_id tok s =
     (let j = \<lparr>job_id = new_id, status = ''pending'', api_token = tok,
                error_message = [], record_count = 0,
                start_time = None, end_time = None\<rparr>
      in if get_job s new_id \<noteq> None then Inl IntegrityError
         else Inr (j, s\<lparr>jobs := jobs s @ [j]\<rparr>))"

definition dict_get :: "(string \<times> json) list \<Rightarrow> string \<Rightarrow> json \<Rightarrow> json" where
  "dict_get d k dflt = (case map_of d k of None \<Rightarrow> dflt | Some v \<Rightarrow> v)"

text \<open>The body of the loop of lines 84 to 93: \<open>data['id_from_service']\<close> raises
  \<open>KeyError\<close> on a missing key, the other fields have defaults.\<close>

definition make_record :: "extraction_job \<Rightarrow> (string \<times> json) list \<Rightarrow> exn + extracted_record" where
  "make_record j d =
     (case map_of d ''id_from_service'' of
        None \<Rightarrow> Inl (KeyError ''id_from_service'')
      | Some i \<Rightarrow>
          Inr \<lparr>job = job_id j, id_from_service = i,
               email = dict_get d ''email'' (JString []),
               first_name = dict_get d ''first_name'' (JString []),
               last_name = dict_get d ''last_name'' (JString []),
               additional_data = dict_get d ''additional_data'' (JObject [])\<rparr>)"

fun make_records ::
    "extraction_job \<Rightarrow> (string \<times> json) list list \<Rightarrow> extracted_record list
       \<Rightarrow> exn + extracted_record list" where
  "make_records j [] acc = Inr acc"
| "make_records j (d # ds) acc =
     (case make_record j d of
        Inl x \<Rightarrow> Inl x
      | Inr r \<Rightarrow> make_records j ds (acc @ [r]))"

text \<open>Lines 72 to 74: the job is marked and saved before anything else runs.\<close>

definition mark_in_progress :: "env \<Rightarrow> extraction_job \<Rightarrow> store \<Rightarrow> extraction_job \<times> store" where
  "mark_in_progress e j s =
     (let j1 = j\<lparr>status := ''in_progress'', start_time := Some (now_start e)\<rparr>
      in (j1, save_job j1 s))"

text \<open>Lines 76 to 101, the rest of the \<open>try\<close> block: \<open>Inl\<close> is the exception that
  leaves it.\<close>

definition extraction_body :: "env \<Rightarrow> extraction_job \<Rightarrow> store \<Rightarrow> exn + store" where
  "extraction_body e j s =
     (case extract_data (api_token j) (entropy e) of
        Inl x \<Rightarrow> Inl x
      | Inr extracted_data \<Rightarrow>
          (case make_records j extracted_data [] of
             Inl x \<Rightarrow> Inl x
           | Inr rs \<Rightarrow>
               (case bulk_create rs s of
                  Inl x \<Rightarrow> Inl x
                | Inr s2 \<Rightarrow>
                    Inr (save_job (j\<lparr>status := ''completed'',
                                     end_time := Some (now_end e),
                                     record_count := int (length rs)\<rparr>) s2))))"

text \<open>Lines 103 to 114, the two handlers, for a bound \<open>job\<close>.\<close>

definition on_exception :: "env \<Rightarrow> extraction_job \<Rightarrow> exn \<Rightarrow> store \<Rightarrow> store" where
  "on_exception e j x s =
     (case x of
        ValueError m \<Rightarrow>
          save_job (j\<lparr>status := ''failed'', error_message := str_exn e x,
                      end_time := Some (now_end e)\<rparr>) s
      | _ \<Rightarrow>
          save_job (j\<lparr>status := ''failed'',
                      error_message := ''Unexpected error: '' @ str_exn e x,
                      end_time := Some (now_end e)\<rparr>) s)"

definition finish_extraction :: "env \<Rightarrow> extraction_job \<Rightarrow> store \<Rightarrow> store" where
  "finish_extraction e j s =
     (case extraction_body e j s of
        Inr s' \<Rightarrow> s'
      | Inl x \<Rightarrow> on_exception e j x s)"

text \<open>\<open>_process_extraction\<close>. The result is the exception that leaves the function, if
  any, and the store. When the lookup raises \<open>DoesNotExist\<close> (an \<open>Exception\<close>, not a
  \<open>ValueError\<close>), the second handler runs with the local \<open>job\<close> never assigned, and its
  first statement raises \<open>UnboundLocalError\<close>.\<close>

definition process_extraction :: "env \<Rightarrow> job_id \<Rightarrow> store \<Rightarrow> exn option \<times> store" where
  "process_extraction e jid s =
     (case get_job s jid of
        None \<Rightarrow> (Some (UnboundLocalError ''job''), s)
      | Some j \<Rightarrow>
          (case mark_in_progress e j s of
             (j1, s1) \<Rightarrow> (None, finish_extraction e j1 s1)))"

definition process_extraction_manually :: "env \<Rightarrow> job_id \<Rightarrow> store \<Rightarrow> bool \<times> store" where
  "process_extraction_manually e jid s =
     (case process_extraction e jid s of
        (None, s') \<Rightarrow> (True, s')
      | (Some x, s') \<Rightarrow> (False, s'))"

definition cancel_job :: "timestamp \<Rightarrow> job_id \<Rightarrow> store \<Rightarrow> bool \<times> store" where
  "cancel_job now jid s =
     (case get_job s jid of
        None \<Rightarrow> (False, s)
      | Some j \<Rightarrow>
          if can_be_cancelled j
          then (True, save_job (j\<lparr>status := ''cancelled'', end_time := Some now\<rparr>) s)
          else (False, s))"

definition remove_job_data :: "job_id \<Rightarrow> store \<Rightarrow> bool \<times> store" where
  "remove_job_data jid s =
     (case get_job s jid of
        None \<Rightarrow> (False, s)
      | Some j \<Rightarrow>
          (True, s\<lparr>records := filter (\<lambda>r. job r \<noteq> job_id j) (records s),
                   jobs := filter (\<lambda>x. job_id x \<noteq> job_id j) (jobs s)\<rparr>))"

record statistics =
  total_jobs :: nat
  completed_jobs :: nat
  failed_jobs :: nat
  pending_jobs :: nat
  in_progress_jobs :: nat
  cancelled_jobs :: nat
  average_duration_seconds :: real
  total_records_extracted :: int

definition count_status :: "string \<Rightarrow> store \<Rightarrow> nat" where
  "count_status st s = length (filter (\<lambda>j. status j = st) (jobs s))"

text \<open>\<open>aggregate(total=Sum('record_count'))['total']\<close>: SQL's SUM is NULL over no rows.\<close>

definition aggregate_sum :: "int list \<Rightarrow> int option" where
  "aggregate_sum xs = (if xs = [] then None else Some (sum_list xs))"

definition get_job_statistics :: "timestamp \<Rightarrow> store \<Rightarrow> statistics" where
  "get_job_statistics now s =
     (let completed_job_durations =
            map (duration_seconds now)
              (filter (\<lambda>j. status j = ''completed'' \<and> start_time j \<noteq> None \<and> end_time j \<noteq> None)
                 (jobs s));
          avg_duration =
            (if completed_job_durations \<noteq> []
             then sum_list completed_job_durations / real (length completed_job_durations)
             else 0);
          total_records =
            (case aggregate_sum (map record_count (jobs s)) of
               None \<Rightarrow> 0
             | Some t \<Rightarrow> if t = 0 then 0 else t)
      in \<lparr>total_jobs = length (jobs s),
          completed_jobs = count_status ''completed'' s,
          failed_jobs = count_status ''failed'' s,
          pending_jobs = count_status ''pending'' s,
          in_progress_jobs = count_status ''in_progress'' s,
          cancelled_jobs = count_status ''cancelled'' s,
          average_duration_seconds = avg_duration,
          total_records_extracted = total_records\<rparr>)"

section \<open>Sequences of service operations\<close>

datatype op =
    Start job_id string
  | Process env job_id
  | Cancel timestamp job_id
  | Remove job_id

fun apply_op :: "op \<Rightarrow> store \<Rightarrow> store" where
  "apply_op (Start new_id tok) s =
     (case start_extraction new_id tok s of Inl x \<Rightarrow> s | Inr (j, s') \<Rightarrow> s')"
| "apply_op (Process e jid) s = snd (process_extraction e jid s)"
| "apply_op (Cancel now jid) s = snd (cancel_job now jid s)"
| "apply_op (Remove jid) s = snd (remove_job_data jid s)"

definition run :: "op list \<Rightarrow> store" where
  "run ops = fold apply_op ops empty_store"

section \<open>Concrete inputs\<close>

text \<open>The inputs at which the theorems below are instantiated: an environment, and a
  store with jobs in every status, as the test cases of \<open>extraction/tests.py\<close> seed
  them (times in microseconds).\<close>

definition example_env :: env where
  "example_env =
     \<lparr>now_start = 1000000, now_end = 3000000, entropy = 0,
      db_text = ''UNIQUE constraint failed''\<rparr>"

definition example_store :: store where
  "example_store =
     \<lparr>jobs =
        [\<lparr>job_id = 11, status = ''completed'', api_token = ''token1'', error_message = [],
           record_count = 10, start_time = Some 0, end_time = Some 4000000\<rparr>,
         \<lparr>job_id = 12, status = ''completed'', api_token = ''token2'', error_message = [],
           record_count = 5, start_time = Some 10000000, end_time = Some 12000000\<rparr>,
         \<lparr>job_id = 13, status = ''pending'', api_token = ''token3'', error_message = [],
           record_count = 0, start_time = None, end_time = None\<rparr>,
         \<lparr>job_id = 14, status = ''failed'', api_token = ''invalid_token'',
           error_message = ''Invalid API token'', record_count = 0,
           start_time = Some 0, end_time = Some 5000000\<rparr>,
         \<lparr>job_id = 15, status = ''cancelled'', api_token = ''token5'', error_message = [],
           record_count = 0, start_time = None, end_time = Some 7000000\<rparr>,
         \<lparr>job_id = 16, status = ''completed'', api_token = ''token6'', error_message = [],
           record_count = 0, start_time = None, end_time = None\<rparr>],
      records = []\<rparr>"

section \<open>Auxiliary definitions for the proofs\<close>

text \<open>The number a string of decimal digits denotes: a left inverse of \<open>str_nat\<close>.\<close>

definition digits_value :: "string \<Rightarrow> nat" where
  "digits_value s = foldl (\<lambda>a c. 10 * a + (of_char c - 48)) 0 s"

text \<open>The row that the loop of \<open>_process_extraction\<close> builds from \<open>mock_item i\<close>.\<close>

definition mock_record :: "job_id \<Rightarrow> nat \<Rightarrow> extracted_record" where
  "mock_record jid i =
     \<lparr>job = jid,
      id_from_service = JString (''user_'' @ str_nat i),
      email = JString (''user'' @ str_nat i @ ''@example.com''),
      first_name = JString (''FirstName'' @ str_nat i),
      last_name = JString (''LastName'' @ str_nat i),
      additional_data = JObject
         [(''phone'', JString (''+1-555-'' @ format_04d (1000 + i))),
          (''company'', JString (''Company '' @ str_nat i)),
          (''created_date'', JString ''2023-01-01'')]\<rparr>"

definition terminal :: "string \<Rightarrow> bool" where
  "terminal st = (st \<in> set [''completed'', ''failed'', ''cancelled''])"

text \<open>What holds of every job between two operations of the service, in a store that
  the service alone has written.\<close>

definition fields_ok :: "extraction_job \<Rightarrow> bool" where
  "fields_ok j \<longleftrightarrow>
     status j \<in> set [''pending'', ''completed'', ''failed'', ''cancelled''] \<and>
     (end_time j \<noteq> None \<longleftrightarrow> terminal (status j)) \<and>
     (status j \<in> set [''completed'', ''failed''] \<longrightarrow> start_time j \<noteq> None) \<and>
     (\<not> validate_token (api_token j) \<longrightarrow> record_count j = 0)"

definition job_ok :: "store \<Rightarrow> extraction_job \<Rightarrow> bool" where
  "job_ok s j \<longleftrightarrow>
     fields_ok j \<and> (status j = ''pending'' \<longrightarrow> records_of s (job_id j) = [])"

definition store_inv :: "store \<Rightarrow> bool" where
  "store_inv s \<longleftrightarrow>
     (\<forall>j \<in> set (jobs s). job_ok s j) \<and>
     (\<forall>r \<in> set (records s). job r \<in> job_id ` set (jobs s))"

section \<open>Decimal strings\<close>

lemma digits_value_snoc: "digits_value (s @ [c]) = 10 * digits_value s + (of_char c - 48)"
  by (simp add: digits_value_def)

lemma of_char_digit: "d < 10 \<Longrightarrow> of_char (digit_char d) - 48 = (d::nat)"
  by (simp add: digit_char_def)

lemma digits_value_str_nat: "digits_value (str_nat n) = n"
proof (induction n rule: str_nat.induct)
  case (1 n)
  show ?case
  proof (cases "n < 10")
    case True
    then show ?thesis
      by (subst str_nat.simps) (simp add: digits_value_def of_char_digit)
  next
    case False
    with 1 have "digits_value (str_nat (n div 10)) = n div 10" by simp
    with False show ?thesis
      by (subst str_nat.simps) (simp add: digits_value_snoc of_char_digit)
  qed
qed

lemma str_nat_inj: "str_nat m = str_nat n \<Longrightarrow> m = n"
  by (metis digits_value_str_nat)

section \<open>The store\<close>

lemma get_job_SomeD: "get_job s jid = Some j \<Longrightarrow> job_id j = jid \<and> j \<in> set (jobs s)"
  by (auto simp: get_job_def find_Some_iff)

lemma get_job_None_iff: "get_job s jid = None \<longleftrightarrow> jid \<notin> job_id ` set (jobs s)"
  by (auto simp: get_job_def find_None_iff)

lemma find_job_append:
  "find P (xs @ ys) = (case find P xs of None \<Rightarrow> find P ys | Some x \<Rightarrow> Some x)"
  by (induction xs) auto

lemma find_map_upd:
  "find (\<lambda>j. job_id j = jid) (map (\<lambda>x. if job_id x = job_id j then j else x) xs) =
     (if jid = job_id j then (if find (\<lambda>x. job_id x = jid) xs = None then None else Some j)
      else find (\<lambda>j. job_id j = jid) xs)"
  by (induction xs) auto

lemma records_save_job [simp]: "records (save_job j s) = records s"
  by (simp add: save_job_def)

lemma get_job_save_job:
  "get_job (save_job j s) jid = (if jid = job_id j then Some j else get_job s jid)"
  by (auto simp: save_job_def get_job_def find_map_upd find_job_append split: option.splits)

lemma set_jobs_save_job:
  "set (jobs (save_job j s)) = insert j {x \<in> set (jobs s). job_id x \<noteq> job_id j}"
  by (auto simp: save_job_def get_job_None_iff image_iff)

lemma records_of_save_job [simp]: "records_of (save_job j s) jid = records_of s jid"
  by (simp add: records_of_def)

section \<open>The extraction run in closed form\<close>

lemma make_record_mock: "make_record j (mock_item i) = Inr (mock_record (job_id j) i)"
  by (simp add: make_record_def mock_item_def dict_get_def mock_record_def)

lemma make_records_mock:
  "make_records j (map mock_item ns) acc = Inr (acc @ map (mock_record (job_id j)) ns)"
  by (induction ns arbitrary: acc) (simp_all add: make_record_mock)

lemma unique_key_mock: "unique_key (mock_record jid i) = (jid, JString (''user_'' @ str_nat i))"
  by (simp add: unique_key_def mock_record_def)

lemma distinct_mock_keys: "distinct (map unique_key (map (mock_record jid) [a..<b]))"
proof -
  have "inj_on (\<lambda>i. unique_key (mock_record jid i)) (set [a..<b])"
    by (rule inj_onI) (simp add: unique_key_mock str_nat_inj)
  then show ?thesis
    by (simp add: distinct_map comp_def)
qed

lemma mock_key_in_store:
  "unique_key (mock_record jid i) \<in> unique_key ` set (records s) \<longleftrightarrow>
     JString (''user_'' @ str_nat i) \<in> id_from_service ` set (records_of s jid)"
proof -
  have "unique_key (mock_record jid i) \<in> unique_key ` set (records s) \<longleftrightarrow>
     (\<exists>r \<in> set (records s). job r = jid \<and> id_from_service r = JString (''user_'' @ str_nat i))"
    unfolding unique_key_mock by (auto simp: unique_key_def)
  also have "\<dots> \<longleftrightarrow> JString (''user_'' @ str_nat i) \<in> id_from_service ` set (records_of s jid)"
    by (auto simp: records_of_def image_iff)
  finally show ?thesis .
qed

lemma violates_mock_iff:
  "violates_unique_together (map (mock_record jid) [a..<b]) s \<longleftrightarrow>
     (\<exists>i. a \<le> i \<and> i < b \<and>
        JString (''user_'' @ str_nat i) \<in> id_from_service ` set (records_of s jid))"
proof -
  have "violates_unique_together (map (mock_record jid) [a..<b]) s \<longleftrightarrow>
     (\<exists>i \<in> set [a..<b]. unique_key (mock_record jid i) \<in> unique_key ` set (records s))"
    unfolding violates_unique_together_def using distinct_mock_keys [of jid a b]
    by simp
  also have "\<dots> \<longleftrightarrow> (\<exists>i. a \<le> i \<and> i < b \<and>
        JString (''user_'' @ str_nat i) \<in> id_from_service ` set (records_of s jid))"
    unfolding mock_key_in_store by auto
  finally show ?thesis .
qed

lemma finish_extraction_eq:
  "finish_extraction e j s =
     (if \<not> validate_token (api_token j)
      then save_job (j\<lparr>status := ''failed'', error_message := ''Invalid API token'',
                       end_time := Some (now_end e)\<rparr>) s
      else if violates_unique_together
                (map (mock_record (job_id j)) [1..<randint 5 25 (entropy e)]) s
      then save_job (j\<lparr>status := ''failed'',
                       error_message := ''Unexpected error: '' @ db_text e,
                       end_time := Some (now_end e)\<rparr>) s
      else save_job (j\<lparr>status := ''completed'', end_time := Some (now_end e),
                       record_count := int (length [1..<randint 5 25 (entropy e)])\<rparr>)
             (s\<lparr>records := records s @
                  map (mock_record (job_id j)) [1..<randint 5 25 (entropy e)]\<rparr>))"
  by (simp add: finish_extraction_def extraction_body_def extract_data_def make_records_mock
      bulk_create_def on_exception_def str_exn_def)

section \<open>An invariant of the stores the service writes\<close>

lemma store_inv_empty: "store_inv empty_store"
  by (simp add: store_inv_def empty_store_def)

lemma store_inv_update:
  assumes inv: "store_inv s"
    and jobs': "set (jobs s') = insert j2 {x \<in> set (jobs s). job_id x \<noteq> job_id j2}"
    and known: "job_id j2 \<in> job_id ` set (jobs s)"
    and recs': "records s' = records s @ new"
    and new: "\<forall>r \<in> set new. job r = job_id j2"
    and ok: "fields_ok j2"
    and np: "status j2 \<noteq> ''pending''"
  shows "store_inv s'"
proof -
  have ids: "job_id ` set (jobs s') = job_id ` set (jobs s)"
    using jobs' known by (auto simp: image_iff)
  have fk: "\<forall>r \<in> set (records s'). job r \<in> job_id ` set (jobs s')"
    unfolding ids using inv new known recs' by (auto simp: store_inv_def)
  have "job_ok s' x" if "x \<in> set (jobs s')" for x
  proof (cases "x = j2")
    case True
    then show ?thesis using ok np by (simp add: job_ok_def)
  next
    case False
    with that jobs' have x: "x \<in> set (jobs s)" "job_id x \<noteq> job_id j2" by auto
    then have "job_ok s x" using inv by (simp add: store_inv_def)
    moreover have "records_of s' (job_id x) = records_of s (job_id x)"
      using x(2) new recs' by (auto simp: records_of_def)
    ultimately show ?thesis by (simp add: job_ok_def)
  qed
  with fk show ?thesis by (simp add: store_inv_def)
qed

lemma store_inv_start:
  assumes "store_inv s"
  shows "store_inv (apply_op (Start new_id tok) s)"
proof (cases "get_job s new_id")
  case (Some j)
  then show ?thesis using assms by (simp add: start_extraction_def Let_def)
next
  case None
  then have fresh: "new_id \<notin> job_id ` set (jobs s)" by (simp add: get_job_None_iff)
  then have norec: "records_of s new_id = []"
    using assms by (auto simp: store_inv_def records_of_def filter_empty_conv)
  show ?thesis using None assms norec
    by (auto simp: start_extraction_def Let_def store_inv_def job_ok_def fields_ok_def
        terminal_def records_of_def)
qed

lemma store_inv_cancel:
  assumes "store_inv s"
  shows "store_inv (apply_op (Cancel now jid) s)"
proof (cases "get_job s jid")
  case None
  then show ?thesis using assms by (simp add: cancel_job_def)
next
  case (Some j)
  then have j: "job_id j = jid" "j \<in> set (jobs s)" by (auto dest: get_job_SomeD)
  then have okj: "fields_ok j" using assms by (simp add: store_inv_def job_ok_def)
  show ?thesis
  proof (cases "can_be_cancelled j")
    case False
    then show ?thesis using Some assms by (simp add: cancel_job_def)
  next
    case True
    let ?j2 = "j\<lparr>status := ''cancelled'', end_time := Some now\<rparr>"
    have "store_inv (save_job ?j2 s)"
    proof (rule store_inv_update [OF assms, where ?j2.0 = ?j2 and new = "[]"])
      show "set (jobs (save_job ?j2 s)) = insert ?j2 {x \<in> set (jobs s). job_id x \<noteq> job_id ?j2}"
        by (rule set_jobs_save_job)
      show "job_id ?j2 \<in> job_id ` set (jobs s)" using j by auto
      show "fields_ok ?j2" using okj by (simp add: fields_ok_def terminal_def)
    qed simp_all
    then show ?thesis using Some True by (simp add: cancel_job_def)
  qed
qed

lemma store_inv_remove:
  assumes "store_inv s"
  shows "store_inv (apply_op (Remove jid) s)"
proof (cases "get_job s jid")
  case None
  then show ?thesis using assms by (simp add: remove_job_data_def)
next
  case (Some j)
  show ?thesis using Some assms
    by (auto simp: remove_job_data_def store_inv_def job_ok_def records_of_def filter_empty_conv)
qed

lemma store_inv_process:
  assumes "store_inv s"
  shows "store_inv (apply_op (Process e jid) s)"
proof (cases "get_job s jid")
  case None
  then show ?thesis using assms by (simp add: process_extraction_def)
next
  case (Some j)
  then have j: "job_id j = jid" "j \<in> set (jobs s)" by (auto dest: get_job_SomeD)
  then have okj: "fields_ok j" using assms by (simp add: store_inv_def job_ok_def)
  let ?j1 = "j\<lparr>status := ''in_progress'', start_time := Some (now_start e)\<rparr>"
  let ?s1 = "save_job ?j1 s"
  have s1: "set (jobs ?s1) = insert ?j1 {x \<in> set (jobs s). job_id x \<noteq> jid}"
    using set_jobs_save_job [of ?j1 s] j by simp
  have res: "apply_op (Process e jid) s = finish_extraction e ?j1 ?s1"
    using Some by (simp add: process_extraction_def mark_in_progress_def Let_def)
  have upd: "store_inv (save_job j2 s2)"
    if "jobs s2 = jobs ?s1" "records s2 = records s @ new" "job_id j2 = jid" "fields_ok j2"
      "status j2 \<noteq> ''pending''" "\<forall>r \<in> set new. job r = jid"
    for j2 s2 new
  proof (rule store_inv_update [OF assms, where ?j2.0 = j2 and new = new])
    have "set (jobs (save_job j2 s2)) = insert j2 {x \<in> set (jobs ?s1). job_id x \<noteq> jid}"
      using set_jobs_save_job [of j2 s2] that(1,3) by simp
    also have "\<dots> = insert j2 {x \<in> set (jobs s). job_id x \<noteq> jid}"
      unfolding s1 using j by auto
    finally show "set (jobs (save_job j2 s2)) =
        insert j2 {x \<in> set (jobs s). job_id x \<noteq> job_id j2}"
      using that(3) by simp
    show "job_id j2 \<in> job_id ` set (jobs s)" using j that(3) by auto
    show "records (save_job j2 s2) = records s @ new" using that(2) by simp
    show "\<forall>r \<in> set new. job r = job_id j2" using that(3,6) by simp
  qed (use that in simp_all)
  let ?n = "randint 5 25 (entropy e)"
  consider (bad_token) "\<not> validate_token (api_token j)"
    | (clash) "validate_token (api_token j)"
        "violates_unique_together (map (mock_record jid) [1..<?n]) ?s1"
    | (stored) "validate_token (api_token j)"
        "\<not> violates_unique_together (map (mock_record jid) [1..<?n]) ?s1"
    by blast
  then show ?thesis
  proof cases
    case bad_token
    then have "record_count j = 0" using okj by (simp add: fields_ok_def)
    then have "store_inv (save_job (?j1\<lparr>status := ''failed'',
        error_message := ''Invalid API token'', end_time := Some (now_end e)\<rparr>) ?s1)"
      using j bad_token by (intro upd [where new = "[]"]) (simp_all add: fields_ok_def terminal_def)
    then show ?thesis unfolding res finish_extraction_eq using bad_token by simp
  next
    case clash
    then have "store_inv (save_job (?j1\<lparr>status := ''failed'',
        error_message := ''Unexpected error: '' @ db_text e,
        end_time := Some (now_end e)\<rparr>) ?s1)"
      using j by (intro upd [where new = "[]"]) (simp_all add: fields_ok_def terminal_def)
    then show ?thesis unfolding res finish_extraction_eq using clash j by simp
  next
    case stored
    then have "store_inv (save_job (?j1\<lparr>status := ''completed'', end_time := Some (now_end e),
        record_count := int (length [1..<?n])\<rparr>)
        (?s1\<lparr>records := records ?s1 @ map (mock_record jid) [1..<?n]\<rparr>))"
      using j
      by (intro upd [where new = "map (mock_record jid) [1..<?n]"])
        (simp_all add: fields_ok_def terminal_def mock_record_def)
    then show ?thesis unfolding res finish_extraction_eq using stored j by simp
  qed
qed

lemma store_inv_apply_op: "store_inv s \<Longrightarrow> store_inv (apply_op x s)"
  by (cases x) (simp_all only: store_inv_start store_inv_process store_inv_cancel store_inv_remove)

lemma store_inv_fold: "store_inv s \<Longrightarrow> store_inv (fold apply_op ops s)"
  by (induction ops arbitrary: s) (simp_all add: store_inv_apply_op)

lemma store_inv_run: "store_inv (run ops)"
  unfolding run_def by (rule store_inv_fold [OF store_inv_empty])

section \<open>validate_token\<close>

lemma startswith_iff: "startswith s p \<longleftrightarrow> (\<exists>rest. s = p @ rest)"
proof
  assume "startswith s p"
  then have "s = p @ drop (length p) s"
    by (metis append_take_drop_id startswith_def)
  then show "\<exists>rest. s = p @ rest" ..
next
  assume "\<exists>rest. s = p @ rest"
  then show "startswith s p" by (auto simp: startswith_def)
qed

text \<open>
  C6: for every token, \<open>validate_token\<close> is true if and only if the token is non-empty,
  longer than 10 characters, and does not start with the prefix \<open>invalid\<close>.
\<close>

theorem validate_token_iff:
  "validate_token tok \<longleftrightarrow>
     tok \<noteq> [] \<and> 10 < length tok \<and> \<not> (\<exists>rest. tok = ''invalid'' @ rest)"
  unfolding validate_token_def startswith_iff by simp

theorem validate_token_iff_witness:
  "validate_token ''valid_test_token_12345'' \<and> \<not> validate_token ''invalid_token''
     \<and> \<not> validate_token ''short'' \<and> \<not> validate_token []"
  using validate_token_iff [of "''valid_test_token_12345''"]
    validate_token_iff [of "''invalid_token''"]
    validate_token_iff [of "''short''"]
    validate_token_iff [of "[]"]
  by simp

section \<open>get_job_statistics\<close>

lemma count_status_sum:
  "\<forall>j \<in> set js. status j \<in> set (map fst STATUS_CHOICES) \<Longrightarrow>
   length (filter (\<lambda>j. status j = ''completed'') js)
   + length (filter (\<lambda>j. status j = ''failed'') js)
   + length (filter (\<lambda>j. status j = ''pending'') js)
   + length (filter (\<lambda>j. status j = ''in_progress'') js)
   + length (filter (\<lambda>j. status j = ''cancelled'') js) = length js"
  by (induction js) (auto simp: STATUS_CHOICES_def)

text \<open>
  C10: in a store where the status of every job is one of the five declared choices, the
  five counts of \<open>get_job_statistics\<close> add up to \<open>total_jobs\<close>.
\<close>

theorem statistics_counts_sum:
  assumes "\<forall>j \<in> set (jobs s). status j \<in> set (map fst STATUS_CHOICES)"
  shows "completed_jobs (get_job_statistics now s) + failed_jobs (get_job_statistics now s)
       + pending_jobs (get_job_statistics now s) + in_progress_jobs (get_job_statistics now s)
       + cancelled_jobs (get_job_statistics now s) = total_jobs (get_job_statistics now s)"
  using count_status_sum [OF assms]
  by (simp add: get_job_statistics_def count_status_def Let_def)

theorem statistics_counts_sum_witness:
  "set (map status (jobs example_store)) \<subseteq> set (map fst STATUS_CHOICES)
   \<and> completed_jobs (get_job_statistics 0 example_store)
     + failed_jobs (get_job_statistics 0 example_store)
     + pending_jobs (get_job_statistics 0 example_store)
     + in_progress_jobs (get_job_statistics 0 example_store)
     + cancelled_jobs (get_job_statistics 0 example_store) = 6"
proof -
  have h: "\<forall>j \<in> set (jobs example_store). status j \<in> set (map fst STATUS_CHOICES)"
    by (simp add: example_store_def STATUS_CHOICES_def)
  have "total_jobs (get_job_statistics 0 example_store) = 6"
    by (simp add: get_job_statistics_def example_store_def)
  with statistics_counts_sum [OF h, of 0] show ?thesis
    by (simp add: example_store_def STATUS_CHOICES_def)
qed

lemma durations_eq:
  "map (duration_seconds now)
     (filter (\<lambda>j. status j = ''completed'' \<and> start_time j \<noteq> None \<and> end_time j \<noteq> None) js) =
   map (\<lambda>j. total_seconds (the (end_time j) - the (start_time j)))
     (filter (\<lambda>j. status j = ''completed'' \<and> start_time j \<noteq> None \<and> end_time j \<noteq> None) js)"
  by (rule map_cong) (auto simp: duration_seconds_def)

text \<open>
  C8: \<open>average_duration_seconds\<close> is the mean of \<open>end_time - start_time\<close> over the jobs that
  are completed and have both times set, and 0 when there is no such job;
  \<open>total_records_extracted\<close> is the sum of \<open>record_count\<close> over all jobs (0 for none); on
  the empty store every count and the average are zero.
\<close>

theorem statistics_average_and_total:
  "average_duration_seconds (get_job_statistics now s) =
     (let timed = filter (\<lambda>j. status j = ''completed'' \<and> start_time j \<noteq> None
                               \<and> end_time j \<noteq> None) (jobs s)
      in if timed = [] then 0
         else (\<Sum>j\<leftarrow>timed. total_seconds (the (end_time j) - the (start_time j)))
                / real (length timed))
   \<and> total_records_extracted (get_job_statistics now s) = (\<Sum>j\<leftarrow>jobs s. record_count j)
   \<and> get_job_statistics now empty_store =
       \<lparr>total_jobs = 0, completed_jobs = 0, failed_jobs = 0, pending_jobs = 0,
        in_progress_jobs = 0, cancelled_jobs = 0, average_duration_seconds = 0,
        total_records_extracted = 0\<rparr>"
proof (intro conjI)
  show "average_duration_seconds (get_job_statistics now s) =
     (let timed = filter (\<lambda>j. status j = ''completed'' \<and> start_time j \<noteq> None
                               \<and> end_time j \<noteq> None) (jobs s)
      in if timed = [] then 0
         else (\<Sum>j\<leftarrow>timed. total_seconds (the (end_time j) - the (start_time j)))
                / real (length timed))"
    unfolding get_job_statistics_def Let_def durations_eq by simp
  show "total_records_extracted (get_job_statistics now s) = (\<Sum>j\<leftarrow>jobs s. record_count j)"
    by (simp add: get_job_statistics_def Let_def aggregate_sum_def)
  show "get_job_statistics now empty_store =
       \<lparr>total_jobs = 0, completed_jobs = 0, failed_jobs = 0, pending_jobs = 0,
        in_progress_jobs = 0, cancelled_jobs = 0, average_duration_seconds = 0,
        total_records_extracted = 0\<rparr>"
    by (simp add: get_job_statistics_def empty_store_def count_status_def aggregate_sum_def)
qed

theorem statistics_average_and_total_witness:
  "average_duration_seconds (get_job_statistics 0 example_store) = 3
   \<and> total_records_extracted (get_job_statistics 0 example_store) = 15"
  using statistics_average_and_total [of 0 example_store]
  by (simp add: example_store_def total_seconds_def)

section \<open>Lookups in the example store\<close>

lemma get_job_example_11:
  "get_job example_store 11 =
     Some \<lparr>job_id = 11, status = ''completed'', api_token = ''token1'', error_message = [],
           record_count = 10, start_time = Some 0, end_time = Some 4000000\<rparr>"
  by (simp add: get_job_def example_store_def)

lemma get_job_example_13:
  "get_job example_store 13 =
     Some \<lparr>job_id = 13, status = ''pending'', api_token = ''token3'', error_message = [],
           record_count = 0, start_time = None, end_time = None\<rparr>"
  by (simp add: get_job_def example_store_def)

lemma get_job_example_19: "get_job example_store 19 = None"
  by (simp add: get_job_def example_store_def)

section \<open>cancel_job\<close>

text \<open>
  C7: \<open>cancel_job\<close> returns false when there is no such job; returns false and leaves the
  store as it is when the job is neither pending nor in progress (a completed job, in
  particular); otherwise it sets the status to cancelled and \<open>end_time\<close> to now, leaves
  the other fields, and returns true.
\<close>

theorem cancel_job_cases:
  "(get_job s jid = None \<longrightarrow> cancel_job now jid s = (False, s))
   \<and> (\<forall>j. get_job s jid = Some j \<and> status j \<noteq> ''pending'' \<and> status j \<noteq> ''in_progress''
          \<longrightarrow> cancel_job now jid s = (False, s))
   \<and> (\<forall>j. get_job s jid = Some j \<and> (status j = ''pending'' \<or> status j = ''in_progress'')
          \<longrightarrow> (\<exists>s'. cancel_job now jid s = (True, s')
                \<and> get_job s' jid = Some (j\<lparr>status := ''cancelled'', end_time := Some now\<rparr>)
                \<and> (\<forall>other. other \<noteq> jid \<longrightarrow> get_job s' other = get_job s other)
                \<and> records s' = records s))"
proof (intro conjI allI impI)
  assume "get_job s jid = None"
  then show "cancel_job now jid s = (False, s)" by (simp add: cancel_job_def)
next
  fix j
  assume "get_job s jid = Some j \<and> status j \<noteq> ''pending'' \<and> status j \<noteq> ''in_progress''"
  then show "cancel_job now jid s = (False, s)"
    by (simp add: cancel_job_def can_be_cancelled_def)
next
  fix j
  assume a: "get_job s jid = Some j \<and> (status j = ''pending'' \<or> status j = ''in_progress'')"
  then have id: "job_id j = jid" by (auto dest: get_job_SomeD)
  let ?j' = "j\<lparr>status := ''cancelled'', end_time := Some now\<rparr>"
  from a have "cancel_job now jid s = (True, save_job ?j' s)"
    by (auto simp: cancel_job_def can_be_cancelled_def)
  moreover have "get_job (save_job ?j' s) jid = Some ?j'"
    using id by (simp add: get_job_save_job)
  moreover have "\<forall>other. other \<noteq> jid \<longrightarrow> get_job (save_job ?j' s) other = get_job s other"
    using id by (simp add: get_job_save_job)
  ultimately show "\<exists>s'. cancel_job now jid s = (True, s')
                \<and> get_job s' jid = Some (j\<lparr>status := ''cancelled'', end_time := Some now\<rparr>)
                \<and> (\<forall>other. other \<noteq> jid \<longrightarrow> get_job s' other = get_job s other)
                \<and> records s' = records s"
    by simp
qed

theorem cancel_job_cases_witness:
  "get_job example_store 19 = None
   \<and> cancel_job 8000000 19 example_store = (False, example_store)
   \<and> map_option status (get_job example_store 11) = Some ''completed''
   \<and> cancel_job 8000000 11 example_store = (False, example_store)
   \<and> map_option status (get_job example_store 13) = Some ''pending''
   \<and> fst (cancel_job 8000000 13 example_store) = True
   \<and> get_job (snd (cancel_job 8000000 13 example_store)) 13 =
       Some \<lparr>job_id = 13, status = ''cancelled'', api_token = ''token3'', error_message = [],
             record_count = 0, start_time = None, end_time = Some 8000000\<rparr>"
proof -
  note c9 = cancel_job_cases [of example_store 19 8000000]
  note c1 = cancel_job_cases [of example_store 11 8000000]
  note c3 = cancel_job_cases [of example_store 13 8000000]
  have p9: "cancel_job 8000000 19 example_store = (False, example_store)"
    using c9 get_job_example_19 by blast
  have p1: "cancel_job 8000000 11 example_store = (False, example_store)"
    using c1 get_job_example_11 by simp
  have "\<exists>s'. cancel_job 8000000 13 example_store = (True, s')
      \<and> get_job s' 13 =
          Some \<lparr>job_id = 13, status = ''cancelled'', api_token = ''token3'', error_message = [],
             record_count = 0, start_time = None, end_time = Some 8000000\<rparr>"
    using c3 get_job_example_13 by auto
  then have p3: "fst (cancel_job 8000000 13 example_store) = True
      \<and> get_job (snd (cancel_job 8000000 13 example_store)) 13 =
          Some \<lparr>job_id = 13, status = ''cancelled'', api_token = ''token3'', error_message = [],
             record_count = 0, start_time = None, end_time = Some 8000000\<rparr>"
    by auto
  show ?thesis
    using p9 p1 p3 by (simp add: get_job_example_11 get_job_example_13 get_job_example_19)
qed

section \<open>process_extraction on a missing job\<close>

lemma process_extraction_not_found:
  "get_job s jid = None \<Longrightarrow>
     process_extraction e jid s = (Some (UnboundLocalError ''job''), s)
     \<and> process_extraction_manually e jid s = (False, s)"
  by (simp add: process_extraction_def process_extraction_manually_def)

text \<open>
  C3: when no job has the id, \<open>_process_extraction\<close> leaves with \<open>UnboundLocalError\<close>
  (the handler reads the local \<open>job\<close>, never assigned), not with a not-found error, and
  \<open>process_extraction_manually\<close> answers false; the store is unchanged.
\<close>

theorem process_extraction_missing_job:
  "process_extraction example_env 19 example_store
     = (Some (UnboundLocalError ''job''), example_store)
   \<and> process_extraction_manually example_env 19 example_store = (False, example_store)"
  by (simp add: process_extraction_def process_extraction_manually_def get_job_example_19)

section \<open>process_extraction on a job that exists\<close>

lemma process_extraction_found:
  assumes "get_job s jid = Some j"
  shows "process_extraction e jid s =
    (None, finish_extraction e (j\<lparr>status := ''in_progress'', start_time := Some (now_start e)\<rparr>)
       (save_job (j\<lparr>status := ''in_progress'', start_time := Some (now_start e)\<rparr>) s))"
  using assms by (simp add: process_extraction_def mark_in_progress_def Let_def)

lemma randint_bounds: "a \<le> b \<Longrightarrow> a \<le> randint a b r \<and> randint a b r \<le> b"
proof -
  assume "a \<le> b"
  have "r mod (b - a + 1) < b - a + 1" by simp
  with \<open>a \<le> b\<close> show ?thesis unfolding randint_def by linarith
qed

lemma randint_5_25: "5 \<le> randint 5 25 r \<and> randint 5 25 r \<le> 25"
  by (rule randint_bounds) simp

lemma process_invalid_token:
  assumes "get_job s jid = Some j" "\<not> validate_token (api_token j)"
  shows "\<exists>s' j'. process_extraction e jid s = (None, s') \<and> get_job s' jid = Some j'
     \<and> j' = j\<lparr>status := ''failed'', start_time := Some (now_start e),
               error_message := ''Invalid API token'', end_time := Some (now_end e)\<rparr>"
proof -
  have id: "job_id j = jid" using assms(1) by (auto dest: get_job_SomeD)
  show ?thesis
    unfolding process_extraction_found [OF assms(1)] finish_extraction_eq
    using assms(2) id by (simp add: get_job_save_job)
qed

lemma process_valid_no_records:
  assumes "get_job s jid = Some j" "validate_token (api_token j)" "records_of s jid = []"
  shows "\<exists>s' j'. process_extraction e jid s = (None, s') \<and> get_job s' jid = Some j'
     \<and> j' = j\<lparr>status := ''completed'', start_time := Some (now_start e),
               end_time := Some (now_end e),
               record_count := int (randint 5 25 (entropy e)) - 1\<rparr>
     \<and> record_count j' = int (length (records_of s' jid))
     \<and> records s' = records s @ map (mock_record jid) [1..<randint 5 25 (entropy e)]"
proof -
  have id: "job_id j = jid" using assms(1) by (auto dest: get_job_SomeD)
  let ?n = "randint 5 25 (entropy e)"
  let ?j1 = "j\<lparr>status := ''in_progress'', start_time := Some (now_start e)\<rparr>"
  have nv: "\<not> violates_unique_together (map (mock_record jid) [1..<?n]) (save_job ?j1 s)"
    unfolding violates_mock_iff using assms(3) by simp
  have len: "int (length [1..<?n]) = int ?n - 1"
    using randint_5_25 [of "entropy e"] by simp
  have "filter (\<lambda>r. job r = jid) (map (mock_record jid) [1..<?n]) = map (mock_record jid) [1..<?n]"
    by (simp add: filter_map comp_def mock_record_def)
  then have recs: "records_of (s'\<lparr>records := records s @ map (mock_record jid) [1..<?n]\<rparr>) jid
      = map (mock_record jid) [1..<?n]" for s' :: store
    using assms(3) by (simp add: records_of_def)
  show ?thesis
    unfolding process_extraction_found [OF assms(1)] finish_extraction_eq
    using assms(2) id nv len recs by (simp add: get_job_save_job)
qed


lemma run_fields_ok:
  assumes "get_job (run ops) jid = Some j"
  shows "fields_ok j" and "status j = ''pending'' \<Longrightarrow> records_of (run ops) jid = []"
proof -
  have "job_id j = jid" "j \<in> set (jobs (run ops))"
    using assms by (auto dest: get_job_SomeD)
  then have "job_ok (run ops) j" "job_id j = jid"
    using store_inv_run [of ops] by (simp_all add: store_inv_def)
  then show "fields_ok j" and "status j = ''pending'' \<Longrightarrow> records_of (run ops) jid = []"
    by (auto simp: job_ok_def)
qed

lemma valid_example_token: "validate_token ''valid_test_token_12345''"
  by (simp add: validate_token_def startswith_def)

lemma run_start_7:
  "run [Start 7 ''valid_test_token_12345''] =
     \<lparr>jobs = [\<lparr>job_id = 7, status = ''pending'', api_token = ''valid_test_token_12345'',
                error_message = [], record_count = 0, start_time = None, end_time = None\<rparr>],
      records = []\<rparr>"
  by (simp add: run_def empty_store_def start_extraction_def get_job_def Let_def)

lemma run_start_cancel_7:
  "get_job (run [Start 7 ''valid_test_token_12345'', Cancel 5000000 7]) 7 =
     Some \<lparr>job_id = 7, status = ''cancelled'', api_token = ''valid_test_token_12345'',
           error_message = [], record_count = 0, start_time = None,
           end_time = Some 5000000\<rparr>"
  by (simp add: run_def empty_store_def start_extraction_def get_job_def cancel_job_def
      can_be_cancelled_def save_job_def Let_def)

lemma process_twice_fails:
  assumes "get_job s jid = Some j" and "validate_token (api_token j)"
    and "records_of s jid = []"
  shows "map_option status
      (get_job (snd (process_extraction e2 jid (snd (process_extraction e1 jid s)))) jid)
    = Some ''failed''"
proof -
  let ?n1 = "randint 5 25 (entropy e1)" and ?n2 = "randint 5 25 (entropy e2)"
  from process_valid_no_records [OF assms, of e1]
  obtain s' j' where r: "process_extraction e1 jid s = (None, s')" "get_job s' jid = Some j'"
    "j' = j\<lparr>status := ''completed'', start_time := Some (now_start e1),
               end_time := Some (now_end e1),
               record_count := int (randint 5 25 (entropy e1)) - 1\<rparr>"
    "records s' = records s @ map (mock_record jid) [1..<?n1]"
    by blast
  have id: "job_id j' = jid" using r(2) by (auto dest: get_job_SomeD)
  have tok: "validate_token (api_token j')" using r(3) assms(2) by simp
  have "1 \<in> set [1..<?n1]" using randint_5_25 [of "entropy e1"] by simp
  then have "mock_record jid 1 \<in> set (records s')" unfolding r(4) by simp
  then have "mock_record jid 1 \<in> set (records_of s' jid)"
    by (simp add: records_of_def mock_record_def)
  then have "id_from_service (mock_record jid 1) \<in> id_from_service ` set (records_of s' jid)"
    by (rule imageI)
  then have "JString (''user_'' @ str_nat 1) \<in> id_from_service ` set (records_of s' jid)"
    by (simp add: mock_record_def)
  moreover have "1 < ?n2" using randint_5_25 [of "entropy e2"] by simp
  ultimately have clash: "violates_unique_together (map (mock_record jid) [1..<?n2])
      (save_job (j'\<lparr>status := ''in_progress'', start_time := Some (now_start e2)\<rparr>) s')"
    unfolding violates_mock_iff by (intro exI [of _ 1]) simp
  show ?thesis
    unfolding r(1) snd_conv process_extraction_found [OF r(2)] finish_extraction_eq
    using tok clash id by (simp add: get_job_save_job)
qed

lemma run_snoc: "run (ops @ [x]) = apply_op x (run ops)"
  by (simp add: run_def)

section \<open>process_extraction with a valid token\<close>

text \<open>
  C1, as the claim states it, fails: a job with a valid token that has been processed once
  holds the records \<open>user_1\<close>, \<open>user_2\<close>, ...; a second run builds records with the same
  identifiers, \<open>bulk_create\<close> breaks \<open>unique_together\<close>, and the job ends failed.
\<close>

theorem process_extraction_rerun_counterexample:
  "validate_token ''valid_test_token_12345''
   \<and> map_option api_token
        (get_job (run [Start 7 ''valid_test_token_12345'', Process example_env 7]) 7)
      = Some ''valid_test_token_12345''
   \<and> map_option status
        (get_job (run [Start 7 ''valid_test_token_12345'', Process example_env 7]) 7)
      = Some ''completed''
   \<and> map_option status
        (get_job (snd (process_extraction example_env 7
           (run [Start 7 ''valid_test_token_12345'', Process example_env 7]))) 7)
      = Some ''failed''"
proof -
  let ?s = "run [Start 7 ''valid_test_token_12345'']"
  let ?j = "\<lparr>job_id = 7, status = ''pending'', api_token = ''valid_test_token_12345'',
             error_message = [], record_count = 0, start_time = None, end_time = None\<rparr>"
  have h1: "get_job ?s 7 = Some ?j" by (simp add: run_start_7 get_job_def)
  have h2: "validate_token (api_token ?j)" by (simp add: valid_example_token)
  have h3: "records_of ?s 7 = []" by (simp add: run_start_7 records_of_def)
  have two: "run [Start 7 ''valid_test_token_12345'', Process example_env 7]
      = snd (process_extraction example_env 7 ?s)"
    using run_snoc [of "[Start 7 ''valid_test_token_12345'']" "Process example_env 7"]
    by simp
  from process_valid_no_records [OF h1 h2 h3, of example_env]
  have first: "map_option api_token (get_job (snd (process_extraction example_env 7 ?s)) 7)
        = Some ''valid_test_token_12345''"
      "map_option status (get_job (snd (process_extraction example_env 7 ?s)) 7)
        = Some ''completed''"
    by auto
  from process_twice_fails [OF h1 h2 h3, of example_env example_env] first valid_example_token
  show ?thesis unfolding two by simp
qed

text \<open>
  C1 (amended): for every job whose stored token satisfies \<open>validate_token\<close> and that has
  no persisted record when the run starts, \<open>process_extraction\<close> returns with the job
  completed, \<open>record_count\<close> equal to the number of records persisted for the job,
  \<open>end_time\<close> and \<open>start_time\<close> set, and \<open>start_time \<le> end_time\<close> when the second reading
  of the clock is not before the first.
\<close>

theorem process_extraction_valid_token:
  assumes "get_job s jid = Some j" and "validate_token (api_token j)"
    and "records_of s jid = []" and "now_start e \<le> now_end e"
  shows "\<exists>s' j'. process_extraction e jid s = (None, s') \<and> get_job s' jid = Some j'
     \<and> status j' = ''completed''
     \<and> record_count j' = int (length (records_of s' jid))
     \<and> end_time j' = Some (now_end e) \<and> start_time j' = Some (now_start e)
     \<and> the (start_time j') \<le> the (end_time j')"
proof -
  from process_valid_no_records [OF assms(1-3), of e]
  obtain s' j' where r: "process_extraction e jid s = (None, s')" "get_job s' jid = Some j'"
    "j' = j\<lparr>status := ''completed'', start_time := Some (now_start e),
               end_time := Some (now_end e),
               record_count := int (randint 5 25 (entropy e)) - 1\<rparr>"
    "record_count j' = int (length (records_of s' jid))"
    by blast
  from r(3) assms(4) have "status j' = ''completed''" "end_time j' = Some (now_end e)"
    "start_time j' = Some (now_start e)" "the (start_time j') \<le> the (end_time j')"
    by simp_all
  with r(1,2,4) show ?thesis by blast
qed

theorem process_extraction_valid_token_witness:
  "get_job (run [Start 7 ''valid_test_token_12345'']) 7 =
      Some \<lparr>job_id = 7, status = ''pending'', api_token = ''valid_test_token_12345'',
             error_message = [], record_count = 0, start_time = None, end_time = None\<rparr>
   \<and> validate_token ''valid_test_token_12345''
   \<and> records_of (run [Start 7 ''valid_test_token_12345'']) 7 = []
   \<and> now_start example_env \<le> now_end example_env
   \<and> (\<exists>s' j'. process_extraction example_env 7 (run [Start 7 ''valid_test_token_12345''])
                  = (None, s')
        \<and> get_job s' 7 = Some j' \<and> status j' = ''completed''
        \<and> record_count j' = int (length (records_of s' 7))
        \<and> end_time j' = Some 3000000 \<and> start_time j' = Some 1000000
        \<and> the (start_time j') \<le> the (end_time j'))"
proof -
  let ?s = "run [Start 7 ''valid_test_token_12345'']"
  let ?j = "\<lparr>job_id = 7, status = ''pending'', api_token = ''valid_test_token_12345'',
             error_message = [], record_count = 0, start_time = None, end_time = None\<rparr>"
  have h1: "get_job ?s 7 = Some ?j" by (simp add: run_start_7 get_job_def)
  have h2: "validate_token (api_token ?j)" by (simp add: valid_example_token)
  have h3: "records_of ?s 7 = []" by (simp add: run_start_7 records_of_def)
  have h4: "now_start example_env \<le> now_end example_env" by (simp add: example_env_def)
  from process_extraction_valid_token [OF h1 h2 h3 h4] h1 h3 h4 valid_example_token
  show ?thesis by (simp add: example_env_def)
qed

section \<open>The lifecycle invariant\<close>

text \<open>
  C2, as the claim states it, fails in its second half: a job cancelled while pending has
  left \<open>pending\<close> and has no \<open>start_time\<close>.
\<close>

theorem cancelled_pending_counterexample:
  "map_option status (get_job (run [Start 7 ''valid_test_token_12345'', Cancel 5000000 7]) 7)
     = Some ''cancelled''
   \<and> map_option start_time
        (get_job (run [Start 7 ''valid_test_token_12345'', Cancel 5000000 7]) 7) = Some None"
  by (simp add: run_start_cancel_7)

text \<open>
  C2 (amended): after every sequence of service operations on the empty store
  (\<open>start_extraction\<close>, \<open>process_extraction\<close>, \<open>cancel_job\<close>, and \<open>remove_job_data\<close> as
  well), for every job, \<open>end_time\<close> is set if and only if the status is completed, failed
  or cancelled, and \<open>start_time\<close> is set whenever the status is in_progress, completed or
  failed, that is once the job has been processed. The states are those between two
  operations: each operation runs to its end before the next one starts.
\<close>

theorem lifecycle_invariant:
  assumes "get_job (run ops) jid = Some j"
  shows "(end_time j \<noteq> None \<longleftrightarrow> status j \<in> set [''completed'', ''failed'', ''cancelled''])
     \<and> (status j \<in> set [''in_progress'', ''completed'', ''failed''] \<longrightarrow> start_time j \<noteq> None)"
  using run_fields_ok(1) [OF assms] by (auto simp: fields_ok_def terminal_def)

theorem lifecycle_invariant_witness:
  "get_job (run [Start 7 ''valid_test_token_12345'', Cancel 5000000 7]) 7 =
     Some \<lparr>job_id = 7, status = ''cancelled'', api_token = ''valid_test_token_12345'',
           error_message = [], record_count = 0, start_time = None,
           end_time = Some 5000000\<rparr>
   \<and> end_time \<lparr>job_id = 7, status = ''cancelled'', api_token = ''valid_test_token_12345'',
           error_message = [], record_count = 0, start_time = None,
           end_time = Some 5000000\<rparr> \<noteq> None
   \<and> status \<lparr>job_id = 7, status = ''cancelled'', api_token = ''valid_test_token_12345'',
           error_message = [], record_count = 0, start_time = None,
           end_time = Some 5000000\<rparr> \<in> set [''completed'', ''failed'', ''cancelled'']"
  using lifecycle_invariant [OF run_start_cancel_7] run_start_cancel_7 by simp


section \<open>process_extraction with an invalid token\<close>

lemma run_start_invalid:
  "get_job (run [Start 7 ''invalid_token'']) 7 =
     Some \<lparr>job_id = 7, status = ''pending'', api_token = ''invalid_token'',
           error_message = [], record_count = 0, start_time = None, end_time = None\<rparr>"
  by (simp add: run_def empty_store_def start_extraction_def get_job_def Let_def)

lemma invalid_example_token: "\<not> validate_token ''invalid_token''"
  by (simp add: validate_token_def startswith_def)

text \<open>
  C4, as the claim states it, fails in its last part: the handler of lines 103 to 108
  never writes \<open>record_count\<close>. The job that \<open>extraction/tests.py\<close> creates with the token
  \<open>token1\<close>, which fails \<open>validate_token\<close>, and \<open>record_count\<close> 10 ends failed with
  \<open>record_count\<close> 10.
\<close>

theorem process_extraction_invalid_token_counterexample:
  "map_option api_token (get_job example_store 11) = Some ''token1''
   \<and> \<not> validate_token ''token1''
   \<and> map_option status
        (get_job (snd (process_extraction example_env 11 example_store)) 11) = Some ''failed''
   \<and> map_option record_count
        (get_job (snd (process_extraction example_env 11 example_store)) 11) = Some 10"
proof -
  let ?j = "\<lparr>job_id = 11, status = ''completed'', api_token = ''token1'', error_message = [],
           record_count = 10, start_time = Some 0, end_time = Some 4000000\<rparr>"
  have bad: "\<not> validate_token ''token1''" by (simp add: validate_token_def)
  then have h2: "\<not> validate_token (api_token ?j)" by simp
  from process_invalid_token [OF get_job_example_11 h2, of example_env]
  have "map_option status
        (get_job (snd (process_extraction example_env 11 example_store)) 11) = Some ''failed''"
    and "map_option record_count
        (get_job (snd (process_extraction example_env 11 example_store)) 11) = Some 10"
    by auto
  with bad get_job_example_11 show ?thesis by simp
qed

text \<open>
  C4 (amended): for every job whose stored token fails \<open>validate_token\<close>,
  \<open>process_extraction\<close> leaves the job failed, with the message \<open>Invalid API token\<close>, which
  is not empty, and \<open>end_time\<close> set, and leaves \<open>record_count\<close> as it was; it is therefore 0
  for every job that had \<open>record_count\<close> 0, and in particular for every job of a store that
  the service operations built from the empty store.
\<close>

theorem process_extraction_invalid_token:
  assumes "get_job s jid = Some j" and "\<not> validate_token (api_token j)"
  shows "\<exists>s' j'. process_extraction e jid s = (None, s') \<and> get_job s' jid = Some j'
     \<and> status j' = ''failed''
     \<and> error_message j' = ''Invalid API token'' \<and> error_message j' \<noteq> []
     \<and> end_time j' = Some (now_end e)
     \<and> record_count j' = record_count j
     \<and> ((\<exists>ops. s = run ops) \<longrightarrow> record_count j' = 0)"
proof -
  have zero: "record_count j = 0" if "\<exists>ops. s = run ops"
  proof -
    from that obtain ops where "s = run ops" ..
    with assms(1) have "get_job (run ops) jid = Some j" by simp
    from run_fields_ok(1) [OF this] assms(2) show ?thesis
      by (simp add: fields_ok_def)
  qed
  from process_invalid_token [OF assms, of e]
  obtain s' j' where r: "process_extraction e jid s = (None, s')"
    "get_job s' jid = Some j'"
    "j' = j\<lparr>status := ''failed'', start_time := Some (now_start e),
               error_message := ''Invalid API token'', end_time := Some (now_end e)\<rparr>"
    by blast
  from r(3) zero have "status j' = ''failed''" "error_message j' = ''Invalid API token''"
    "error_message j' \<noteq> []" "end_time j' = Some (now_end e)"
    "record_count j' = record_count j" "(\<exists>ops. s = run ops) \<longrightarrow> record_count j' = 0"
    by simp_all
  with r(1,2) show ?thesis by blast
qed

theorem process_extraction_invalid_token_witness:
  "get_job (run [Start 7 ''invalid_token'']) 7 =
     Some \<lparr>job_id = 7, status = ''pending'', api_token = ''invalid_token'',
           error_message = [], record_count = 0, start_time = None, end_time = None\<rparr>
   \<and> \<not> validate_token ''invalid_token''
   \<and> (\<exists>s' j'. process_extraction example_env 7 (run [Start 7 ''invalid_token'']) = (None, s')
        \<and> get_job s' 7 = Some j' \<and> status j' = ''failed''
        \<and> error_message j' = ''Invalid API token'' \<and> end_time j' = Some 3000000
        \<and> record_count j' = 0)"
proof -
  let ?j = "\<lparr>job_id = 7, status = ''pending'', api_token = ''invalid_token'',
           error_message = [], record_count = 0, start_time = None, end_time = None\<rparr>"
  have h2: "\<not> validate_token (api_token ?j)" by (simp add: invalid_example_token)
  have built: "\<exists>ops. run [Start 7 ''invalid_token''] = run ops" by blast
  from process_extraction_invalid_token [OF run_start_invalid h2, of example_env] built
  have "\<exists>s' j'. process_extraction example_env 7 (run [Start 7 ''invalid_token'']) = (None, s')
        \<and> get_job s' 7 = Some j' \<and> status j' = ''failed''
        \<and> error_message j' = ''Invalid API token'' \<and> end_time j' = Some 3000000
        \<and> record_count j' = 0"
    by (auto simp: example_env_def)
  with run_start_invalid invalid_example_token show ?thesis by simp
qed

section \<open>extract_data and the number of records\<close>

text \<open>
  C5: with a valid token, every call of \<open>extract_data\<close> returns between 4 and 24 records,
  every such number for some state of the random generator; and a pending job (of a store
  that the service operations built) processed with a valid token ends completed with
  \<open>record_count\<close> between 4 and 24.
\<close>

theorem extract_data_between_4_and_24:
  assumes "validate_token tok"
  shows "(\<exists>items. extract_data tok r = Inr items \<and> 4 \<le> length items \<and> length items \<le> 24)
     \<and> (\<forall>k. 4 \<le> k \<and> k \<le> 24 \<longrightarrow>
           (\<exists>r' items. extract_data tok r' = Inr items \<and> length items = k))
     \<and> (\<forall>ops jid j e. get_job (run ops) jid = Some j \<and> status j = ''pending''
             \<and> api_token j = tok \<longrightarrow>
           (\<exists>s' j'. process_extraction e jid (run ops) = (None, s') \<and> get_job s' jid = Some j'
              \<and> status j' = ''completed'' \<and> 4 \<le> record_count j' \<and> record_count j' \<le> 24))"
proof (intro conjI allI impI)
  show "\<exists>items. extract_data tok r = Inr items \<and> 4 \<le> length items \<and> length items \<le> 24"
    using assms randint_5_25 [of r] by (auto simp: extract_data_def)
next
  fix k :: nat
  assume k: "4 \<le> k \<and> k \<le> 24"
  then have "k - 4 < 21" by linarith
  then have "(k - 4) mod 21 = k - 4" by (rule mod_less)
  with k have "randint 5 25 (k - 4) = k + 1" by (simp add: randint_def)
  then have "extract_data tok (k - 4) = Inr (map mock_item [1..<k + 1])"
    using assms by (simp add: extract_data_def)
  then show "\<exists>r' items. extract_data tok r' = Inr items \<and> length items = k"
    by (intro exI [of _ "k - 4"] exI [of _ "map mock_item [1..<k + 1]"]) simp
next
  fix ops jid j e
  assume a: "get_job (run ops) jid = Some j \<and> status j = ''pending'' \<and> api_token j = tok"
  then have g: "get_job (run ops) jid = Some j" and v: "validate_token (api_token j)"
    using assms by simp_all
  from a have n: "records_of (run ops) jid = []"
    using run_fields_ok(2) [OF g] by simp
  from process_valid_no_records [OF g v n, of e]
  obtain s' j' where r: "process_extraction e jid (run ops) = (None, s')"
    "get_job s' jid = Some j'"
    "j' = j\<lparr>status := ''completed'', start_time := Some (now_start e),
               end_time := Some (now_end e),
               record_count := int (randint 5 25 (entropy e)) - 1\<rparr>"
    by blast
  from r(3) randint_5_25 [of "entropy e"]
  have "status j' = ''completed''" "4 \<le> record_count j'" "record_count j' \<le> 24"
    by simp_all
  with r(1,2) show "\<exists>s' j'. process_extraction e jid (run ops) = (None, s')
      \<and> get_job s' jid = Some j' \<and> status j' = ''completed''
      \<and> 4 \<le> record_count j' \<and> record_count j' \<le> 24"
    by blast
qed

theorem extract_data_between_4_and_24_witness:
  "validate_token ''valid_test_token_12345''
   \<and> (\<exists>items. extract_data ''valid_test_token_12345'' 0 = Inr items
         \<and> 4 \<le> length items \<and> length items \<le> 24)
   \<and> (\<exists>s' j'. process_extraction example_env 7 (run [Start 7 ''valid_test_token_12345''])
                  = (None, s')
         \<and> get_job s' 7 = Some j' \<and> status j' = ''completed''
         \<and> 4 \<le> record_count j' \<and> record_count j' \<le> 24)"
proof -
  let ?j = "\<lparr>job_id = 7, status = ''pending'', api_token = ''valid_test_token_12345'',
             error_message = [], record_count = 0, start_time = None, end_time = None\<rparr>"
  note t = extract_data_between_4_and_24 [OF valid_example_token, of 0]
  have g: "get_job (run [Start 7 ''valid_test_token_12345'']) 7 = Some ?j"
    by (simp add: run_start_7 get_job_def)
  from t have "\<exists>items. extract_data ''valid_test_token_12345'' 0 = Inr items
         \<and> 4 \<le> length items \<and> length items \<le> 24"
    by blast
  moreover from t g have "\<exists>s' j'.
      process_extraction example_env 7 (run [Start 7 ''valid_test_token_12345'']) = (None, s')
         \<and> get_job s' 7 = Some j' \<and> status j' = ''completed''
         \<and> 4 \<le> record_count j' \<and> record_count j' \<le> 24"
    by simp
  ultimately show ?thesis using valid_example_token by blast
qed

section \<open>Running process_extraction again\<close>



end
